theory Spec2Isabelle
  imports Complex_Main
begin

section \<open>Python values used by the editorial framework\<close>

text \<open>
  The development follows \<^verbatim>\<open>python/edl/timecode.py\<close> and \<^verbatim>\<open>python/edl/edl.py\<close>
  under Python 3: \<^verbatim>\<open>/\<close> is true division, \<^verbatim>\<open>round\<close> rounds halves to even and
  returns an integer. Python integers are \<^typ>\<open>int\<close>. A Python float is modelled by the
  rational number it denotes (\<^typ>\<open>rat\<close>), so float arithmetic is exact here; the
  frame numbers of an edit list are far below the range where a double loses integer
  precision. A text string is a \<^typ>\<open>string\<close>; its characters stand for the code points
  below 256.
\<close>

datatype error =
    ValueError
  | BadFrameRateError
  | BadDropFrameError
  | NotImplementedError
  | TypeError
  | ZeroDivisionError
  | IndexError
  | KeyError
  | AttributeError
  | RuntimeError
  | BadBLError
  | BadFCMError
  | InvalidOperation

text \<open>
  \<^verbatim>\<open>BadFrameRateError\<close> and \<^verbatim>\<open>BadDropFrameError\<close> derive from \<^verbatim>\<open>ValueError\<close>
  (\<^verbatim>\<open>errors.py\<close>), so an \<^verbatim>\<open>except ValueError\<close> clause catches them too.
\<close>

definition is_ValueError :: "error \<Rightarrow> bool" where
  "is_ValueError e = (e = ValueError \<or> e = BadFrameRateError \<or> e = BadDropFrameError)"

text \<open>A frame rate is passed as an \<^verbatim>\<open>int\<close> or as a \<^verbatim>\<open>float\<close>.\<close>

datatype pynum = PyInt int | PyFloat rat

fun num_val :: "pynum \<Rightarrow> rat" where
  "num_val (PyInt n) = of_int n"
| "num_val (PyFloat x) = x"

text \<open>Truth value of an optional boolean: \<^verbatim>\<open>None\<close> and \<^verbatim>\<open>False\<close> are false.\<close>

definition truthy :: "bool option \<Rightarrow> bool" where
  "truthy d = (d = Some True)"

text \<open>\<^verbatim>\<open>int(x)\<close> of a float truncates toward zero.\<close>

definition py_int :: "rat \<Rightarrow> int" where
  "py_int x = (if 0 \<le> x then \<lfloor>x\<rfloor> else \<lceil>x\<rceil>)"

text \<open>\<^verbatim>\<open>x % y\<close> takes the sign of the divisor; the callers exclude \<open>y = 0\<close>.\<close>

definition py_mod :: "rat \<Rightarrow> rat \<Rightarrow> rat" where
  "py_mod x y = x - y * of_int \<lfloor>x / y\<rfloor>"

text \<open>\<^verbatim>\<open>int(round(fps))\<close>: an integer is unchanged, a float is rounded half to even.\<close>

definition round_half_even :: "rat \<Rightarrow> int" where
  "round_half_even x =
     (let f = \<lfloor>x\<rfloor>; d = x - of_int f
      in if d < 1 / 2 then f
         else if 1 / 2 < d then f + 1
         else if even f then f else f + 1)"

fun py_round :: "pynum \<Rightarrow> int" where
  "py_round (PyInt n) = n"
| "py_round (PyFloat x) = round_half_even x"

subsection \<open>Digits and formatting\<close>

definition is_digit :: "char \<Rightarrow> bool" where
  \<comment> \<open>the regular expression class \<^verbatim>\<open>\d\<close>\<close>
  "is_digit c = (c \<in> set ''0123456789'')"

definition py_isdigit_char :: "char \<Rightarrow> bool" where
  \<comment> \<open>\<^verbatim>\<open>str.isdigit\<close> also accepts the superscript digits 0xB2, 0xB3 and 0xB9\<close>
  "py_isdigit_char c = (is_digit c \<or> c = CHR 0xB2 \<or> c = CHR 0xB3 \<or> c = CHR 0xB9)"

definition isdigit :: "string \<Rightarrow> bool" where
  "isdigit s = (s \<noteq> [] \<and> list_all py_isdigit_char s)"

definition digit_val :: "char \<Rightarrow> int" where
  "digit_val c = int (of_char c) - 48"

definition digit_char :: "nat \<Rightarrow> char" where
  "digit_char d = ''0123456789'' ! d"

text \<open>The value of a string of decimal digits, most significant first.\<close>

definition int_of_digits :: "string \<Rightarrow> int" where
  "int_of_digits s = foldl (\<lambda>acc c. 10 * acc + digit_val c) 0 s"

text \<open>
  \<^verbatim>\<open>int(s)\<close> as the code calls it, on a string that passed \<^verbatim>\<open>isdigit\<close> or was
  matched by \<^verbatim>\<open>\d\<close>: a superscript digit is not a decimal literal.
\<close>

definition int_of_str :: "string \<Rightarrow> error + int" where
  "int_of_str s =
     (if s \<noteq> [] \<and> list_all is_digit s then Inr (int_of_digits s) else Inl ValueError)"

fun digits_of :: "nat \<Rightarrow> string" where
  "digits_of n =
     (if n < 10 then [digit_char n] else digits_of (n div 10) @ [digit_char (n mod 10)])"

declare digits_of.simps [simp del]

text \<open>\<^verbatim>\<open>str(n)\<close> and \<^verbatim>\<open>"%s" % n\<close> of an integer.\<close>

definition str_int :: "int \<Rightarrow> string" where
  "str_int n = (if n < 0 then CHR ''-'' # digits_of (nat (- n)) else digits_of (nat n))"

text \<open>\<^verbatim>\<open>"%02d" % n\<close>: at least two characters, the sign included, padded with zeros.\<close>

definition fmt02d :: "int \<Rightarrow> string" where
  "fmt02d n =
     (if n < 0 then CHR ''-'' # digits_of (nat (- n))
      else let ds = digits_of (nat n) in if length ds < 2 then CHR ''0'' # ds else ds)"

section \<open>Timecode engine (\<^verbatim>\<open>timecode.py\<close>)\<close>

record drop_consts =
  dc_count :: int
  dc_fps_int :: int
  dc_fp10m :: int

definition DROP_FRAME :: "rat \<Rightarrow> drop_consts option" where
  "DROP_FRAME fps =
     (if fps = 2997 / 100 then Some \<lparr>dc_count = 2, dc_fps_int = 30, dc_fp10m = 17982\<rparr>
      else if fps = 5994 / 100 then Some \<lparr>dc_count = 4, dc_fps_int = 60, dc_fp10m = 35964\<rparr>
      else None)"

definition VALID_DROP_FRAME_FPS :: "rat list" where
  "VALID_DROP_FRAME_FPS = [2997 / 100, 5994 / 100]"

definition DROP_FRAME_DELIMITER :: string where
  "DROP_FRAME_DELIMITER = '';''"

definition NON_DROP_FRAME_DELIMITER :: string where
  "NON_DROP_FRAME_DELIMITER = '':''"

definition VALID_DROP_FRAME_DELIMITERS :: "string list" where
  "VALID_DROP_FRAME_DELIMITERS = ['';'', '','', ''.'']"

definition VALID_NON_DROP_FRAME_DELIMITERS :: "string list" where
  "VALID_NON_DROP_FRAME_DELIMITERS = ['':'']"

subsection \<open>\<^verbatim>\<open>timecode_from_frame\<close>\<close>

text \<open>
  The last four statements of \<^verbatim>\<open>timecode_from_frame\<close>: the (corrected) frame number
  is split with true divisions and \<^verbatim>\<open>int()\<close>, then formatted. A frame rate that
  rounds to zero makes the first division raise.
\<close>

definition split_frame_number :: "rat \<Rightarrow> int \<Rightarrow> string \<Rightarrow> error + string" where
  "split_frame_number frame_number fps_int frames_token =
     (if fps_int = 0 then Inl ZeroDivisionError
      else
        let hours = py_int (frame_number / of_int (3600 * fps_int));
            minutes = py_int (py_mod (frame_number / of_int (60 * fps_int)) 60);
            seconds = py_int (py_mod (frame_number / of_int fps_int) 60);
            frames = py_int (py_mod frame_number (of_int fps_int))
        in Inr (fmt02d hours @ '':'' @ fmt02d minutes @ '':'' @ fmt02d seconds
                @ frames_token @ fmt02d frames))"

definition timecode_from_frame :: "rat \<Rightarrow> pynum \<Rightarrow> bool option \<Rightarrow> error + string" where
  "timecode_from_frame frame_number fps drop_frame =
     (if truthy drop_frame \<and> num_val fps \<notin> set VALID_DROP_FRAME_FPS then Inl NotImplementedError
      else if truthy drop_frame then
        (case DROP_FRAME (num_val fps) of
           None \<Rightarrow> Inl KeyError
         | Some c \<Rightarrow>
             let fps_int = dc_fps_int c;
                 drop_frames_per_min = dc_count c;
                 frames_per_10_mins = dc_fp10m c;
                 frames_per_min_drop = fps_int * 60 - drop_frames_per_min;
                 additional_frames_per_10m = drop_frames_per_min * 9;
                 additional_frames_per_1m = drop_frames_per_min;
                 ten_minute_chunks = py_int (frame_number / of_int frames_per_10_mins);
                 remaining_frames = py_mod frame_number (of_int frames_per_10_mins);
                 add_frames =
                   (if of_int drop_frames_per_min < remaining_frames
                    then additional_frames_per_10m * ten_minute_chunks
                         + additional_frames_per_1m
                           * py_int ((remaining_frames - of_int drop_frames_per_min)
                                     / of_int frames_per_min_drop)
                    else additional_frames_per_10m * ten_minute_chunks)
             in split_frame_number (frame_number + of_int add_frames) fps_int
                  DROP_FRAME_DELIMITER)
      else split_frame_number frame_number (py_round fps) NON_DROP_FRAME_DELIMITER)"

subsection \<open>Parsing and drop-frame detection\<close>

text \<open>Regular-expression pieces: \<open>n\<close> digits, or one character of a class, at the front.\<close>

definition take_digits :: "nat \<Rightarrow> string \<Rightarrow> (string \<times> string) option" where
  "take_digits n s =
     (if n \<le> length s \<and> list_all is_digit (take n s) then Some (take n s, drop n s) else None)"

fun take_char :: "(char \<Rightarrow> bool) \<Rightarrow> string \<Rightarrow> string option" where
  "take_char P [] = None"
| "take_char P (c # cs) = (if P c then Some cs else None)"

text \<open>
  \<^verbatim>\<open>(\d{k}):(\d{2}):(\d{2})[:;\.,](\d{2})\<close> at the start of the string, for a fixed
  number \<open>k\<close> of hour digits. \<^verbatim>\<open>re.match\<close> does not look at what follows the match.
\<close>

definition match_timecode :: "nat \<Rightarrow> string \<Rightarrow> (string \<times> string \<times> string \<times> string) option" where
  "match_timecode k s =
     Option.bind (take_digits k s) (\<lambda>(g1, r1).
     Option.bind (take_char (\<lambda>c. c = CHR '':'') r1) (\<lambda>r2.
     Option.bind (take_digits 2 r2) (\<lambda>(g2, r3).
     Option.bind (take_char (\<lambda>c. c = CHR '':'') r3) (\<lambda>r4.
     Option.bind (take_digits 2 r4) (\<lambda>(g3, r5).
     Option.bind (take_char (\<lambda>c. c \<in> set '':;.,'') r5) (\<lambda>r6.
     Option.bind (take_digits 2 r6) (\<lambda>(g4, r7).
     Some (g1, g2, g3, g4))))))))"

text \<open>\<^verbatim>\<open>Timecode.parse_timecode\<close>: \<^verbatim>\<open>\d{2,3}\<close> is greedy, three hour digits are tried first.\<close>

definition parse_timecode :: "string \<Rightarrow> error + (int \<times> int \<times> int \<times> int)" where
  "parse_timecode timecode_str =
     (case (case match_timecode 3 timecode_str of
              Some m \<Rightarrow> Some m
            | None \<Rightarrow> match_timecode 2 timecode_str) of
        None \<Rightarrow> Inl ValueError
      | Some (g1, g2, g3, g4) \<Rightarrow>
          Inr (int_of_digits g1, int_of_digits g2, int_of_digits g3, int_of_digits g4))"

text \<open>
  \<^verbatim>\<open>Timecode.str_is_drop_frame\<close>. The pattern is built by formatting the
  \<^emph>\<open>list\<close> of delimiters into \<^verbatim>\<open>".*(%s)\d{2}$"\<close>, which gives the character class
  \<^verbatim>\<open>[';', ',', '.', ':']\<close>: it also holds the quote and the space. \<^verbatim>\<open>.\<close> does not
  match a newline, and \<^verbatim>\<open>$\<close> matches at the end or before one final newline.
\<close>

definition delimiter_class :: "char \<Rightarrow> bool" where
  "delimiter_class c = (c \<in> set ''';, .:'')"

definition str_is_drop_frame :: "string \<Rightarrow> error + bool" where
  "str_is_drop_frame timecode_str =
     (let body = (if timecode_str \<noteq> [] \<and> last timecode_str = CHR 0x0A
                  then butlast timecode_str else timecode_str);
          n = length body
      in if 3 \<le> n \<and> CHR 0x0A \<notin> set (take (n - 3) body)
            \<and> delimiter_class (body ! (n - 3))
            \<and> is_digit (body ! (n - 2)) \<and> is_digit (body ! (n - 1))
         then Inr ([body ! (n - 3)] \<in> set VALID_DROP_FRAME_DELIMITERS)
         else Inl ValueError)"

definition compute_drop_frame_setting :: "string \<Rightarrow> bool option \<Rightarrow> error + bool" where
  "compute_drop_frame_setting timecode_str drop_frame =
     (case str_is_drop_frame timecode_str of
        Inl e \<Rightarrow> Inl e
      | Inr tc_drop_frame \<Rightarrow>
          (case drop_frame of
             None \<Rightarrow> Inr tc_drop_frame
           | Some d \<Rightarrow>
               if d = False \<and> tc_drop_frame then Inl BadDropFrameError
               else if d = True \<and> \<not> tc_drop_frame then Inr True
               else Inr tc_drop_frame))"

subsection \<open>\<^verbatim>\<open>frame_from_timecode\<close>\<close>

text \<open>The timecode argument is a string or a tuple of four integers.\<close>

datatype tc_arg = TcStr string | TcTuple int int int int

definition frame_number_of :: "int \<Rightarrow> int \<Rightarrow> int \<Rightarrow> int \<Rightarrow> pynum \<Rightarrow> bool \<Rightarrow> error + int" where
  \<comment> \<open>the body of \<^verbatim>\<open>frame_from_timecode\<close> after its argument is taken apart\<close>
  "frame_number_of hours minutes seconds frames fps tc_drop_frame =
     (case (if tc_drop_frame
            then (case DROP_FRAME (num_val fps) of
                    None \<Rightarrow> Inl KeyError | Some c \<Rightarrow> Inr (dc_count c))
            else Inr 0) of
        Inl e \<Rightarrow> Inl e
      | Inr drop_frames_per_min \<Rightarrow>
          let fps_int = py_round fps;
              frames_per_hour = fps_int * 60 * 60;
              frames_per_minute = fps_int * 60;
              total_minutes = 60 * hours + minutes;
              frame_number = frames_per_hour * hours + frames_per_minute * minutes
                             + fps_int * seconds + frames;
              frames_to_drop =
                drop_frames_per_min * (total_minutes - py_int (of_int total_minutes / 10))
          in Inr (frame_number - frames_to_drop))"

definition frame_from_timecode :: "tc_arg \<Rightarrow> pynum \<Rightarrow> bool option \<Rightarrow> error + int" where
  "frame_from_timecode timecode fps drop_frame =
     (case timecode of
        TcStr s \<Rightarrow>
          (case parse_timecode s of
             Inl e \<Rightarrow> Inl e
           | Inr (hour, minute, second, frame) \<Rightarrow>
               (case compute_drop_frame_setting s drop_frame of
                  Inl e \<Rightarrow> Inl e
                | Inr tc_drop_frame \<Rightarrow>
                    if tc_drop_frame \<and> num_val fps \<notin> set VALID_DROP_FRAME_FPS
                    then Inl NotImplementedError
                    else frame_number_of hour minute second frame fps tc_drop_frame))
      | TcTuple hour minute second frame \<Rightarrow>
          frame_number_of hour minute second frame fps (truthy drop_frame))"

subsection \<open>The \<^verbatim>\<open>Timecode\<close> class\<close>

record timecode =
  tc_hours :: int
  tc_minutes :: int
  tc_seconds :: int
  tc_frames :: int
  tc_drop_frame :: "bool option"
  tc_fps :: pynum
  tc_frame_delimiter :: string

text \<open>\<^verbatim>\<open>Timecode._validate_values\<close>; \<open>source\<close> is the truth value of the flag.\<close>

definition validate_values :: "timecode \<Rightarrow> bool \<Rightarrow> error + timecode" where
  "validate_values self source =
     (if 59 < tc_minutes self then Inl ValueError
      else if 59 < tc_seconds self then Inl ValueError
      else if \<not> source \<and> num_val (tc_fps self) \<le> of_int (tc_frames self)
      then Inl BadFrameRateError
      else Inr self)"

text \<open>
  The part of \<^verbatim>\<open>Timecode.__init__\<close> after the fields are read: the check of the
  drop-frame rate, the delimiter, the validation.
\<close>

definition finish_init ::
  "int \<times> int \<times> int \<times> int \<Rightarrow> bool option \<Rightarrow> pynum \<Rightarrow> bool \<Rightarrow> error + timecode" where
  "finish_init hmsf drop_frame fps source =
     (case hmsf of (h, m, s, f) \<Rightarrow>
        if truthy drop_frame \<and> num_val fps \<notin> set VALID_DROP_FRAME_FPS
        then Inl NotImplementedError
        else validate_values
               \<lparr>tc_hours = h, tc_minutes = m, tc_seconds = s, tc_frames = f,
                tc_drop_frame = drop_frame, tc_fps = fps,
                tc_frame_delimiter =
                  (if truthy drop_frame then DROP_FRAME_DELIMITER
                   else NON_DROP_FRAME_DELIMITER)\<rparr>
               source)"

text \<open>
  \<^verbatim>\<open>Timecode.__init__\<close>. A string of digits is a frame number; there the
  \<^verbatim>\<open>ValueError\<close>s of the conversion are caught and raised again as a plain
  \<^verbatim>\<open>ValueError\<close>, and the drop-frame flag is stored as it was passed.
\<close>

definition Timecode_init :: "string \<Rightarrow> pynum \<Rightarrow> bool option \<Rightarrow> bool \<Rightarrow> error + timecode" where
  "Timecode_init timecode_string fps drop_frame source =
     (if isdigit timecode_string then
        (case int_of_str timecode_string of
           Inl e \<Rightarrow> Inl ValueError
         | Inr n \<Rightarrow>
             (case timecode_from_frame (of_int n) fps drop_frame of
                Inl e \<Rightarrow> if is_ValueError e then Inl ValueError else Inl e
              | Inr new_timecode_string \<Rightarrow>
                  (case parse_timecode new_timecode_string of
                     Inl e \<Rightarrow> Inl ValueError
                   | Inr hmsf \<Rightarrow> finish_init hmsf drop_frame fps source)))
      else
        (case parse_timecode timecode_string of
           Inl e \<Rightarrow> Inl e
         | Inr hmsf \<Rightarrow>
             (case compute_drop_frame_setting timecode_string drop_frame of
                Inl e \<Rightarrow> Inl e
              | Inr d \<Rightarrow> finish_init hmsf (Some d) fps source)))"

definition from_frame :: "rat \<Rightarrow> pynum \<Rightarrow> bool option \<Rightarrow> error + timecode" where
  "from_frame frame fps drop_frame =
     (case timecode_from_frame frame fps drop_frame of
        Inl e \<Rightarrow> Inl e
      | Inr tc \<Rightarrow> Timecode_init tc fps drop_frame False)"

definition to_frame :: "timecode \<Rightarrow> error + int" where
  "to_frame self =
     frame_from_timecode
       (TcTuple (tc_hours self) (tc_minutes self) (tc_seconds self) (tc_frames self))
       (tc_fps self) (tc_drop_frame self)"

text \<open>
  \<^verbatim>\<open>decimal.Decimal(a) / b\<close> for integers, in the default context: the quotient
  rounded half to even to 28 significant digits. \<open>decimal_adjusted n d\<close> is the
  exponent of the leading digit of \<open>n / d\<close>. The result is given by its value.
\<close>

definition decimal_adjusted :: "nat \<Rightarrow> nat \<Rightarrow> int" where
  "decimal_adjusted n d =
     (let k = int (length (digits_of n)) - int (length (digits_of d))
      in if power_int 10 k \<le> (of_nat n / of_nat d :: rat) then k else k - 1)"

definition decimal_divide :: "int \<Rightarrow> int \<Rightarrow> error + rat" where
  "decimal_divide a b =
     (if b = 0 then (if a = 0 then Inl InvalidOperation else Inl ZeroDivisionError)
      else if a = 0 then Inr 0
      else
        let scale = power_int 10 (27 - decimal_adjusted (nat \<bar>a\<bar>) (nat \<bar>b\<bar>))
        in Inr (of_int (round_half_even (of_int a / of_int b * scale)) / scale))"

text \<open>
  \<^verbatim>\<open>Timecode.to_seconds\<close>: \<^verbatim>\<open>decimal.Decimal(frame) / self._fps\<close>. A
  \<^verbatim>\<open>Decimal\<close> divides by an \<^verbatim>\<open>int\<close>; with a \<^verbatim>\<open>float\<close> the operator raises
  \<^verbatim>\<open>TypeError\<close>.
\<close>

definition to_seconds :: "timecode \<Rightarrow> error + rat" where
  "to_seconds self =
     (case to_frame self of
        Inl e \<Rightarrow> Inl e
      | Inr frame \<Rightarrow>
          (case tc_fps self of
             PyInt n \<Rightarrow> decimal_divide frame n
           | PyFloat x \<Rightarrow> Inl TypeError))"

text \<open>The right operand of \<^verbatim>\<open>+\<close> and \<^verbatim>\<open>-\<close>.\<close>

datatype operand = OpTimecode timecode | OpInt int | OpOther

definition Timecode_add :: "timecode \<Rightarrow> operand \<Rightarrow> error + timecode" where
  "Timecode_add self right =
     (case right of
        OpTimecode r \<Rightarrow>
          (case to_frame self of Inl e \<Rightarrow> Inl e | Inr a \<Rightarrow>
             (case to_frame r of Inl e \<Rightarrow> Inl e | Inr b \<Rightarrow>
                from_frame (of_int (a + b)) (tc_fps self) (tc_drop_frame self)))
      | OpInt n \<Rightarrow>
          (case to_frame self of Inl e \<Rightarrow> Inl e | Inr a \<Rightarrow>
             from_frame (of_int (a + n)) (tc_fps self) (tc_drop_frame self))
      | OpOther \<Rightarrow> Inl TypeError)"

definition Timecode_sub :: "timecode \<Rightarrow> operand \<Rightarrow> error + timecode" where
  "Timecode_sub self right =
     (case right of
        OpTimecode r \<Rightarrow>
          (case to_frame self of Inl e \<Rightarrow> Inl e | Inr a \<Rightarrow>
             (case to_frame r of Inl e \<Rightarrow> Inl e | Inr b \<Rightarrow>
                from_frame (of_int (a - b)) (tc_fps self) (tc_drop_frame self)))
      | OpInt n \<Rightarrow>
          (case to_frame self of Inl e \<Rightarrow> Inl e | Inr a \<Rightarrow>
             from_frame (of_int (a - n)) (tc_fps self) (tc_drop_frame self))
      | OpOther \<Rightarrow> Inl TypeError)"

definition Timecode_str :: "timecode \<Rightarrow> string" where
  "Timecode_str self =
     fmt02d (tc_hours self) @ '':'' @ fmt02d (tc_minutes self) @ '':''
     @ fmt02d (tc_seconds self) @ tc_frame_delimiter self @ fmt02d (tc_frames self)"

section \<open>Properties\<close>

subsection \<open>Drop-frame boundaries\<close>

text \<open>
  Claim C2. With drop frame at 29.97 fps, \<^verbatim>\<open>timecode_from_frame\<close> renders frame 1799 as
  \<^verbatim>\<open>00:00:59;29\<close>, frame 1800 as \<^verbatim>\<open>00:01:00;02\<close>, frame 17982 as
  \<^verbatim>\<open>00:10:00;00\<close>, and frames 17980 and 17981 as \<^verbatim>\<open>00:09:59;28\<close> and
  \<^verbatim>\<open>00:09:59;29\<close>; at 59.94 fps it renders frame 3600 as \<^verbatim>\<open>00:01:00;04\<close>.
\<close>

theorem timecode_from_frame_drop_boundaries:
  "timecode_from_frame 1799 (PyFloat (2997 / 100)) (Some True) = Inr ''00:00:59;29''
   \<and> timecode_from_frame 1800 (PyFloat (2997 / 100)) (Some True) = Inr ''00:01:00;02''
   \<and> timecode_from_frame 17982 (PyFloat (2997 / 100)) (Some True) = Inr ''00:10:00;00''
   \<and> timecode_from_frame 17980 (PyFloat (2997 / 100)) (Some True) = Inr ''00:09:59;28''
   \<and> timecode_from_frame 17981 (PyFloat (2997 / 100)) (Some True) = Inr ''00:09:59;29''
   \<and> timecode_from_frame 3600 (PyFloat (5994 / 100)) (Some True) = Inr ''00:01:00;04''"
  by code_simp

subsection \<open>Parsing\<close>

text \<open>
  Claim C3. The docstring of \<^verbatim>\<open>parse_timecode\<close> lists \<^verbatim>\<open>00;12;34;56\<close> among the
  formats it supports (any non-alphanumeric character between the groups), but the
  pattern only takes a colon after the hours and after the minutes: the string is
  rejected.
\<close>

theorem parse_timecode_semicolons_rejected:
  "parse_timecode ''00;12;34;56'' = Inl ValueError"
  by code_simp

subsection \<open>Seconds\<close>

text \<open>
  Claim C7. At the frame rate 23.976, passed as a float, \<^verbatim>\<open>to_seconds\<close> of the
  timecode \<^verbatim>\<open>00:00:01:00\<close> raises \<^verbatim>\<open>TypeError\<close> instead of returning 24 / 23.976.
\<close>

theorem to_seconds_float_fps_raises:
  "Timecode_init ''00:00:01:00'' (PyFloat (23976 / 1000)) None False =
     Inr \<lparr>tc_hours = 0, tc_minutes = 0, tc_seconds = 1, tc_frames = 0,
          tc_drop_frame = Some False, tc_fps = PyFloat (23976 / 1000),
          tc_frame_delimiter = '':''\<rparr>
   \<and> to_seconds \<lparr>tc_hours = 0, tc_minutes = 0, tc_seconds = 1, tc_frames = 0,
          tc_drop_frame = Some False, tc_fps = PyFloat (23976 / 1000),
          tc_frame_delimiter = '':''\<rparr> = Inl TypeError"
  by code_simp

text \<open>
  At an integer rate the quotient is rounded to 28 significant digits: one frame at
  24 fps is not exactly 1 / 24 of a second.
\<close>

lemma to_seconds_int_fps_rounded:
  "to_seconds \<lparr>tc_hours = 0, tc_minutes = 0, tc_seconds = 0, tc_frames = 1,
          tc_drop_frame = Some False, tc_fps = PyInt 24,
          tc_frame_delimiter = '':''\<rparr>
   = Inr (4166666666666666666666666667 / 100000000000000000000000000000)"
  by code_simp

subsection \<open>Drop-frame reconciliation\<close>

lemma take_char_eq_Some: "take_char P s = Some r \<longleftrightarrow> (\<exists>c. s = c # r \<and> P c)"
  by (cases s) auto

lemma take_digits_Some:
  "take_digits n s = Some (g, r) \<Longrightarrow> s = g @ r \<and> length g = n \<and> list_all is_digit g"
  by (auto simp: take_digits_def split: if_splits)

lemma match_timecode_colon:
  assumes "match_timecode k s = Some m"
  shows "CHR '':'' \<in> set s"
proof -
  from assms obtain g1 r1 r2 where a: "take_digits k s = Some (g1, r1)"
    and b: "take_char (\<lambda>c. c = CHR '':'') r1 = Some r2"
    by (auto simp: match_timecode_def Option.bind_eq_Some_conv)
  from a have "s = g1 @ r1" by (simp add: take_digits_Some)
  moreover from b have "r1 = CHR '':'' # r2" by (auto simp: take_char_eq_Some)
  ultimately show ?thesis by simp
qed

lemma parse_timecode_not_isdigit:
  assumes "parse_timecode s = Inr x"
  shows "\<not> isdigit s"
proof -
  from assms obtain k m where "match_timecode k s = Some m"
    by (auto simp: parse_timecode_def split: option.splits)
  then have "CHR '':'' \<in> set s" by (rule match_timecode_colon)
  moreover have "\<not> py_isdigit_char CHR '':''"
    by (simp add: py_isdigit_char_def is_digit_def)
  ultimately show ?thesis
    by (auto simp: isdigit_def list_all_iff)
qed

text \<open>
  Claim C6. When no drop-frame value is requested, \<^verbatim>\<open>_compute_drop_frame_setting\<close>
  returns the value detected from the delimiter. When \<^verbatim>\<open>False\<close> is requested and
  the delimiter indicates drop frame, it raises \<^verbatim>\<open>BadDropFrameError\<close>, and so does
  the construction of a \<^verbatim>\<open>Timecode\<close> from such a string. When \<^verbatim>\<open>True\<close> is
  requested and the delimiter does not indicate drop frame, \<^verbatim>\<open>True\<close> is returned.
\<close>

theorem compute_drop_frame_setting_reconciles:
  "(str_is_drop_frame s = Inr d \<longrightarrow> compute_drop_frame_setting s None = Inr d)
   \<and> (str_is_drop_frame s = Inr True \<longrightarrow>
        compute_drop_frame_setting s (Some False) = Inl BadDropFrameError)
   \<and> (str_is_drop_frame s = Inr True \<and> parse_timecode s = Inr x \<longrightarrow>
        Timecode_init s fps (Some False) source = Inl BadDropFrameError)
   \<and> (str_is_drop_frame s = Inr False \<longrightarrow>
        compute_drop_frame_setting s (Some True) = Inr True)"
  using parse_timecode_not_isdigit [of s x]
  by (auto simp: compute_drop_frame_setting_def Timecode_init_def)

theorem compute_drop_frame_setting_reconciles_witness:
  "compute_drop_frame_setting ''01:00:00;12'' None = Inr True
   \<and> compute_drop_frame_setting ''01:00:00;12'' (Some False) = Inl BadDropFrameError
   \<and> Timecode_init ''01:00:00;12'' (PyInt 24) (Some False) False = Inl BadDropFrameError
   \<and> compute_drop_frame_setting ''01:00:00:12'' (Some True) = Inr True"
proof -
  have a: "str_is_drop_frame ''01:00:00;12'' = Inr True" by code_simp
  have b: "parse_timecode ''01:00:00;12'' = Inr (1, 0, 0, 12)" by code_simp
  have c: "str_is_drop_frame ''01:00:00:12'' = Inr False" by code_simp
  show ?thesis
    using compute_drop_frame_setting_reconciles
            [of "''01:00:00;12''" True "(1, 0, 0, 12)" "PyInt 24" False]
          compute_drop_frame_setting_reconciles
            [of "''01:00:00:12''" False "(1, 0, 0, 12)" "PyInt 24" False]
          a b c
    by simp
qed

end
